theory Spec2Isabelle
  imports Complex_Main
begin

text \<open>
  A model of the transcode orchestration of go-ffmpeg: the progress line parser
  \<open>newProgress\<close> (progress.go), and of the orchestrator (ffmpeg.go) the method
  \<open>cleanUp\<close> and the reader goroutine of \<open>Start\<close>. The repository holds other
  revisions of both files as well. Of these, the name-scanning revision of the parser is
  modelled too, under the name \<open>newProgress_scan\<close>, since it differs from progress.go in
  what it does with \<open>N/A\<close> and with a percent complete of zero.
\<close>

section \<open>Strings: the functions of Go's standard library that the parser calls\<close>

text \<open>
  A Go string is a sequence of bytes; a \<^typ>\<open>string\<close> here is the list of those bytes.
  \<open>strings.FieldsFunc\<close> walks the string rune by rune (UTF-8), so the decoder is part
  of the model. A rune is its code point, an integer (Go's \<open>rune\<close> is \<open>int32\<close>).
\<close>

type_synonym rune = int

definition byte :: "char \<Rightarrow> int" where
  "byte c = of_char c"

definition RuneError :: rune where
  "RuneError = 65533"

definition cont :: "char \<Rightarrow> bool" where
  "cont c = (128 \<le> byte c \<and> byte c \<le> 191)"

text \<open>
  \<open>decode_multi a s\<close>: the lead byte \<open>a\<close> is not ASCII and \<open>s\<close> follows it. The result is
  the rune and the number of continuation bytes, or \<open>None\<close> for an encoding that
  \<open>utf8.DecodeRuneInString\<close> rejects (a stray continuation byte, an overlong form, a
  surrogate, a value above U+10FFFF, a truncated sequence).
\<close>

definition decode_multi :: "char \<Rightarrow> string \<Rightarrow> (rune \<times> nat) option" where
  "decode_multi a s =
     (let x = byte a in
      if 194 \<le> x \<and> x \<le> 223 then
        (case s of
           b # _ \<Rightarrow> if cont b then Some ((x - 192) * 64 + (byte b - 128), 1) else None
         | _ \<Rightarrow> None)
      else if 224 \<le> x \<and> x \<le> 239 then
        (case s of
           b # c # _ \<Rightarrow>
             if (if x = 224 then 160 else 128) \<le> byte b
                \<and> byte b \<le> (if x = 237 then 159 else 191) \<and> cont c
             then Some ((x - 224) * 4096 + (byte b - 128) * 64 + (byte c - 128), 2)
             else None
         | _ \<Rightarrow> None)
      else if 240 \<le> x \<and> x \<le> 244 then
        (case s of
           b # c # d # _ \<Rightarrow>
             if (if x = 240 then 144 else 128) \<le> byte b
                \<and> byte b \<le> (if x = 244 then 143 else 191) \<and> cont c \<and> cont d
             then Some ((x - 240) * 262144 + (byte b - 128) * 4096
                        + (byte c - 128) * 64 + (byte d - 128), 3)
             else None
         | _ \<Rightarrow> None)
      else None)"

text \<open>
  The runes of a string, each with the bytes that encode it. An invalid byte is the rune
  U+FFFD of width one, as in a Go \<open>range\<close> loop over a string.
\<close>

fun runes :: "string \<Rightarrow> (rune \<times> string) list" where
  "runes [] = []"
| "runes (a # s) =
     (if byte a < 128 then (byte a, [a]) # runes s
      else case decode_multi a s of
             Some (r, n) \<Rightarrow> (r, a # take n s) # runes (drop n s)
           | None \<Rightarrow> (RuneError, [a]) # runes s)"

text \<open>
  The Unicode tables behind \<open>unicode.IsLetter\<close> and \<open>unicode.IsNumber\<close> are not part of
  the repository. Below U+0080 the two predicates are written out; above, the tables are
  a parameter of the model.
\<close>

record unicode_tables =
  Letter :: "rune \<Rightarrow> bool"
  Number :: "rune \<Rightarrow> bool"

definition IsLetter :: "unicode_tables \<Rightarrow> rune \<Rightarrow> bool" where
  "IsLetter U r =
     (if r < 128 then (65 \<le> r \<and> r \<le> 90) \<or> (97 \<le> r \<and> r \<le> 122) else Letter U r)"

definition IsNumber :: "unicode_tables \<Rightarrow> rune \<Rightarrow> bool" where
  "IsNumber U r = (if r < 128 then 48 \<le> r \<and> r \<le> 57 else Number U r)"

text \<open>The tables that know no letter and no number above U+007F, for ASCII inputs.\<close>

definition ascii_tables :: unicode_tables where
  "ascii_tables = \<lparr>Letter = (\<lambda>r. False), Number = (\<lambda>r. False)\<rparr>"

text \<open>\<open>strings.HasPrefix\<close>.\<close>

definition HasPrefix :: "string \<Rightarrow> string \<Rightarrow> bool" where
  "HasPrefix s p = (take (length p) s = p)"

text \<open>
  \<open>strings.FieldsFunc\<close>: the maximal runs of runes that do not satisfy \<open>f\<close>. \<open>cur\<close> holds
  the bytes of the field being read (Go keeps its start index); it is empty exactly
  between fields.
\<close>

fun spans :: "(rune \<Rightarrow> bool) \<Rightarrow> string \<Rightarrow> (rune \<times> string) list \<Rightarrow> string list" where
  "spans f cur [] = (if cur = [] then [] else [cur])"
| "spans f cur ((r, bs) # rs) =
     (if f r then (if cur = [] then spans f [] rs else cur # spans f [] rs)
      else spans f (cur @ bs) rs)"

definition FieldsFunc :: "string \<Rightarrow> (rune \<Rightarrow> bool) \<Rightarrow> string list" where
  "FieldsFunc s f = spans f [] (runes s)"

text \<open>\<open>strings.TrimRight\<close> with an ASCII cutset: trailing bytes of the cutset go.\<close>

definition TrimRight :: "string \<Rightarrow> string \<Rightarrow> string" where
  "TrimRight s cutset = rev (dropWhile (\<lambda>c. c \<in> set cutset) (rev s))"

text \<open>
  \<open>strings.Split\<close> with a separator of one byte, the only use in the source: the pieces
  between the separators, one more than there are separators.
\<close>

fun split_at :: "char \<Rightarrow> string \<Rightarrow> string \<Rightarrow> string list" where
  "split_at sep cur [] = [cur]"
| "split_at sep cur (c # cs) =
     (if c = sep then cur # split_at sep [] cs else split_at sep (cur @ [c]) cs)"

definition Split :: "string \<Rightarrow> char \<Rightarrow> string list" where
  "Split s sep = split_at sep [] s"

section \<open>Numbers: \<open>strconv.Atoi\<close>, \<open>float64\<close> and \<open>strconv.ParseFloat\<close>\<close>

text \<open>
  Go's \<open>int\<close> and \<open>time.Duration\<close> are 64-bit signed integers (on the 64-bit platforms
  the program is built for). They are integers here, with the wrap-around of \<open>+\<close> and
  \<open>*\<close> written out.
\<close>

definition MinInt64 :: int where
  "MinInt64 = - (2 ^ 63)"

definition MaxInt64 :: int where
  "MaxInt64 = 2 ^ 63 - 1"

definition wrap64 :: "int \<Rightarrow> int" where
  "wrap64 x = (x + 2 ^ 63) mod 2 ^ 64 - 2 ^ 63"

definition is_digit :: "char \<Rightarrow> bool" where
  "is_digit c = (48 \<le> byte c \<and> byte c \<le> 57)"

definition digits_value :: "int \<Rightarrow> string \<Rightarrow> int" where
  "digits_value b ds = fold (\<lambda>c a. a * b + (byte c - 48)) ds 0"

text \<open>
  \<open>strip_sign\<close>: one optional leading \<open>+\<close> or \<open>-\<close>; the flag says that it was \<open>-\<close>.
\<close>

fun strip_sign :: "string \<Rightarrow> bool \<times> string" where
  "strip_sign [] = (False, [])"
| "strip_sign (c # s) =
     (if c = CHR ''-'' then (True, s) else if c = CHR ''+'' then (False, s)
      else (False, c # s))"

text \<open>
  \<open>strconv.Atoi\<close>: an optional sign and at least one decimal digit, nothing else, and a
  value that fits 64 bits. \<open>None\<close> is the non-nil error (syntax or range).
\<close>

definition Atoi :: "string \<Rightarrow> int option" where
  "Atoi s =
     (let (neg, ds) = strip_sign s in
      if ds = [] \<or> \<not> list_all is_digit ds then None
      else let n = digits_value 10 ds; v = (if neg then - n else n) in
           if v < MinInt64 \<or> MaxInt64 < v then None else Some v)"

text \<open>
  A \<open>float64\<close> is an IEEE 754 binary64 value: a finite number (a rational that has a
  binary64 representation; \<open>Fin 0\<close> is \<open>+0\<close>), the negative zero, an infinity or NaN.
  Every operation rounds its exact result to the nearest binary64 value, ties to even.
\<close>

datatype float64 = Fin rat | NegZero | PInf | NInf | NaN

definition ipow :: "rat \<Rightarrow> int \<Rightarrow> rat" where
  "ipow b k = (if 0 \<le> k then b ^ nat k else 1 / b ^ nat (- k))"

text \<open>The number of binary digits of a positive integer.\<close>

function bits :: "int \<Rightarrow> int" where
  "bits n = (if n \<le> 0 then 0 else 1 + bits (n div 2))"
  by pat_completeness auto
termination
  by (relation "measure nat") auto

text \<open>\<open>ilog2 a\<close> is the floor of the binary logarithm of a positive rational.\<close>

definition ilog2 :: "rat \<Rightarrow> int" where
  "ilog2 a =
     (let (n, d) = quotient_of a; k = bits n - bits d in
      if ipow 2 k \<le> a then k else k - 1)"

definition round_half_even :: "rat \<Rightarrow> int" where
  "round_half_even x =
     (let f = \<lfloor>x\<rfloor>; r = x - of_int f in
      if r < 1 / 2 then f else if 1 / 2 < r then f + 1
      else if even f then f else f + 1)"

text \<open>
  \<open>round64 q\<close>: the binary64 value nearest to \<open>q\<close>. For \<open>\<bar>q\<bar>\<close> in the binade of
  \<open>2 ^ e\<close> the unit in the last place is \<open>2 ^ (e - 52)\<close>, and \<open>2 ^ - 1074\<close> for the
  subnormal numbers; \<open>m\<close> is the significand in these units. The result is an infinity
  when it reaches \<open>2 ^ 1024\<close>: when \<open>1024 \<le> e\<close>, or when \<open>m\<close> rounds up to \<open>2 ^ 53\<close>
  in the last binade.
\<close>

definition round64 :: "rat \<Rightarrow> float64" where
  "round64 q =
     (if q = 0 then Fin 0
      else let a = \<bar>q\<bar>; l = ilog2 a in
           if 1024 \<le> l then (if 0 < q then PInf else NInf)
           else let e = max l (- 1022); u = ipow 2 (e - 52);
                    m = round_half_even (a / u) in
                if e = 1023 \<and> 2 ^ 53 \<le> m then (if 0 < q then PInf else NInf)
                else if m = 0 then (if 0 < q then Fin 0 else NegZero)
                else Fin (if 0 < q then of_int m * u else - (of_int m * u)))"

definition fneg :: "float64 \<Rightarrow> bool" where
  "fneg x = (case x of Fin q \<Rightarrow> q < 0 | NegZero \<Rightarrow> True | NInf \<Rightarrow> True | _ \<Rightarrow> False)"

definition fzero :: "float64 \<Rightarrow> bool" where
  "fzero x = (x = Fin 0 \<or> x = NegZero)"

definition finf :: "float64 \<Rightarrow> bool" where
  "finf x = (x = PInf \<or> x = NInf)"

definition fval :: "float64 \<Rightarrow> rat" where
  "fval x = (case x of Fin q \<Rightarrow> q | _ \<Rightarrow> 0)"

definition signed_zero :: "bool \<Rightarrow> float64" where
  "signed_zero neg = (if neg then NegZero else Fin 0)"

definition signed_inf :: "bool \<Rightarrow> float64" where
  "signed_inf neg = (if neg then NInf else PInf)"

text \<open>Division, multiplication and subtraction of \<open>float64\<close>, and \<open>x == 0\<close>.\<close>

definition fdiv :: "float64 \<Rightarrow> float64 \<Rightarrow> float64" where
  "fdiv x y =
     (if x = NaN \<or> y = NaN then NaN
      else if (fzero x \<and> fzero y) \<or> (finf x \<and> finf y) then NaN
      else let neg = (fneg x \<noteq> fneg y) in
           if finf x \<or> fzero y then signed_inf neg
           else if fzero x \<or> finf y then signed_zero neg
           else round64 (fval x / fval y))"

definition fmul :: "float64 \<Rightarrow> float64 \<Rightarrow> float64" where
  "fmul x y =
     (if x = NaN \<or> y = NaN then NaN
      else if (fzero x \<and> finf y) \<or> (finf x \<and> fzero y) then NaN
      else let neg = (fneg x \<noteq> fneg y) in
           if finf x \<or> finf y then signed_inf neg
           else if fzero x \<or> fzero y then signed_zero neg
           else round64 (fval x * fval y))"

definition fsub :: "float64 \<Rightarrow> float64 \<Rightarrow> float64" where
  "fsub x y =
     (if x = NaN \<or> y = NaN then NaN
      else if finf x then (if y = x then NaN else x)
      else if finf y then signed_inf (\<not> fneg y)
      else if fval x - fval y = 0 then
             (if x = NegZero \<and> y = Fin 0 then NegZero else Fin 0)
      else round64 (fval x - fval y))"

definition feq0 :: "float64 \<Rightarrow> bool" where
  "feq0 x = fzero x"

text \<open>\<open>float64(n)\<close> for a 64-bit integer \<open>n\<close>.\<close>

definition float64_of_int :: "int \<Rightarrow> float64" where
  "float64_of_int n = round64 (of_int n)"

text \<open>
  \<open>int64(x)\<close>, as in \<open>time.Duration(x)\<close>: the fraction is discarded (truncation towards
  zero). For NaN, an infinity or a value outside the 64-bit range the language leaves the
  result to the implementation; the model takes the amd64 result, the smallest integer.
\<close>

definition int64_of_float :: "float64 \<Rightarrow> int" where
  "int64_of_float x =
     (case x of
        Fin q \<Rightarrow>
          (let t = (if 0 \<le> q then \<lfloor>q\<rfloor> else \<lceil>q\<rceil>) in
           if t < MinInt64 \<or> MaxInt64 < t then MinInt64 else t)
      | NegZero \<Rightarrow> 0
      | _ \<Rightarrow> MinInt64)"

text \<open>
  \<open>strconv.ParseFloat(s, 64)\<close>. The names of the special values are matched without
  regard to case: an optionally signed \<open>inf\<close> or \<open>infinity\<close>, and an unsigned \<open>nan\<close>.
\<close>

definition lower_byte :: "char \<Rightarrow> int" where
  "lower_byte c = (let x = byte c in if 65 \<le> x \<and> x \<le> 90 then x + 32 else x)"

definition special :: "string \<Rightarrow> float64 option" where
  "special s =
     (let (neg, r) = strip_sign s; l = map lower_byte r in
      if l = map byte ''inf'' \<or> l = map byte ''infinity'' then Some (signed_inf neg)
      else if map lower_byte s = map byte ''nan'' then Some NaN
      else None)"

text \<open>
  A number is an optional sign, a mantissa of decimal digits with at most one point, and
  an optional exponent \<open>e\<close>; or, after \<open>0x\<close>, a mantissa of hexadecimal digits and a
  binary exponent \<open>p\<close>, which is then required. Underscores may separate digits.
\<close>

definition digit_of :: "bool \<Rightarrow> char \<Rightarrow> int option" where
  "digit_of hex c =
     (let x = byte c in
      if 48 \<le> x \<and> x \<le> 57 then Some (x - 48)
      else if hex \<and> 97 \<le> x \<and> x \<le> 102 then Some (x - 87)
      else if hex \<and> 65 \<le> x \<and> x \<le> 70 then Some (x - 55)
      else None)"

text \<open>
  The mantissa loop of \<open>readFloat\<close>: \<open>M\<close> is the value of the digits read so far, \<open>nf\<close>
  counts the digits after the point, \<open>dot\<close> and \<open>digs\<close> say that a point and a digit
  were seen. The loop stops at the first byte that is none of these and returns the rest.
\<close>

fun mantissa :: "bool \<Rightarrow> string \<Rightarrow> int \<Rightarrow> int \<Rightarrow> bool \<Rightarrow> bool \<Rightarrow> int \<times> int \<times> bool \<times> string" where
  "mantissa hex [] M nf dot digs = (M, nf, digs, [])"
| "mantissa hex (c # cs) M nf dot digs =
     (if c = CHR ''_'' then mantissa hex cs M nf dot digs
      else if c = CHR ''.'' then
        (if dot then (M, nf, digs, c # cs) else mantissa hex cs M nf True digs)
      else case digit_of hex c of
             Some d \<Rightarrow> mantissa hex cs (M * (if hex then 16 else 10) + d)
                         (if dot then nf + 1 else nf) dot True
           | None \<Rightarrow> (M, nf, digs, c # cs))"

text \<open>The digits of the exponent; the value stops growing once it has reached 10000.\<close>

fun exponent_digits :: "string \<Rightarrow> int \<Rightarrow> int \<times> string" where
  "exponent_digits [] e = (e, [])"
| "exponent_digits (c # cs) e =
     (if c = CHR ''_'' then exponent_digits cs e
      else if is_digit c then
        exponent_digits cs (if e < 10000 then e * 10 + (byte c - 48) else e)
      else (e, c # cs))"

text \<open>
  What follows the mantissa: nothing (not after a hexadecimal mantissa), or the exponent
  character, an optional sign and at least one digit, up to the end of the string.
\<close>

definition exponent :: "bool \<Rightarrow> string \<Rightarrow> int option" where
  "exponent hex r =
     (case r of
        [] \<Rightarrow> if hex then None else Some 0
      | c # r1 \<Rightarrow>
          if (if hex then c = CHR ''p'' \<or> c = CHR ''P'' else c = CHR ''e'' \<or> c = CHR ''E'')
          then (let (neg, r2) = strip_sign r1 in
                case r2 of
                  [] \<Rightarrow> None
                | d # _ \<Rightarrow>
                    if \<not> is_digit d then None
                    else (case exponent_digits r2 0 of
                            (e, rest) \<Rightarrow>
                              if rest = [] then Some (if neg then - e else e) else None))
          else None)"

text \<open>
  \<open>underscoreOK\<close>: an underscore must follow a digit (or the base prefix) and be
  followed by a digit.
\<close>

datatype saw = SawStart | SawDigit | SawUnderscore | SawOther

fun underscore_scan :: "bool \<Rightarrow> saw \<Rightarrow> string \<Rightarrow> bool" where
  "underscore_scan hex sw [] = (sw \<noteq> SawUnderscore)"
| "underscore_scan hex sw (c # cs) =
     (if digit_of hex c \<noteq> None then underscore_scan hex SawDigit cs
      else if c = CHR ''_'' then
        (if sw \<noteq> SawDigit then False else underscore_scan hex SawUnderscore cs)
      else if sw = SawUnderscore then False
      else underscore_scan hex SawOther cs)"

definition underscoreOK :: "string \<Rightarrow> bool" where
  "underscoreOK s =
     (let (neg, r) = strip_sign s in
      case r of
        a # b # r' \<Rightarrow>
          if a = CHR ''0'' \<and> lower_byte b \<in> {98, 111, 120}
          then underscore_scan (lower_byte b = 120) SawDigit r'
          else underscore_scan False SawStart r
      | _ \<Rightarrow> underscore_scan False SawStart r)"

text \<open>
  \<open>readFloat\<close>, for a string that must be consumed to its end: the sign and the exact
  value that the text denotes, or \<open>None\<close> for a syntax error.
\<close>

definition readFloat :: "string \<Rightarrow> (bool \<times> rat) option" where
  "readFloat s =
     (let (neg, r) = strip_sign s;
          hex = (case r of
                   a # b # _ # _ \<Rightarrow> a = CHR ''0'' \<and> (b = CHR ''x'' \<or> b = CHR ''X'')
                 | _ \<Rightarrow> False);
          (M, nf, digs, rest) = mantissa hex (if hex then drop 2 r else r) 0 0 False False
      in if \<not> digs then None
         else case exponent hex rest of
                None \<Rightarrow> None
              | Some e \<Rightarrow>
                  if CHR ''_'' \<in> set s \<and> \<not> underscoreOK s then None
                  else Some (neg, if hex then of_int M * ipow 2 (e - 4 * nf)
                                  else of_int M * ipow 10 (e - nf)))"

text \<open>
  The result is the nearest \<open>float64\<close>; a value that rounds to an infinity is a range
  error. \<open>None\<close> is the non-nil error.
\<close>

definition ParseFloat :: "string \<Rightarrow> float64 option" where
  "ParseFloat s =
     (case special s of
        Some f \<Rightarrow> Some f
      | None \<Rightarrow>
          (case readFloat s of
             None \<Rightarrow> None
           | Some (neg, q) \<Rightarrow>
               if q = 0 then Some (signed_zero neg)
               else let r = round64 (if neg then - q else q) in
                    if finf r then None else Some r))"

section \<open>The progress line parser (progress.go)\<close>

datatype error =
    ErrNoProgressInformation
  | ErrWrongNumberOfFields
  | ErrFrameNumber
  | ErrFPS
  | ErrQ
  | ErrSize
  | ErrTime
  | ErrBitrate
  | ErrDup
  | ErrDrop
  | ErrSpeed
  | ErrFfProbeStdOutPipe
  | ErrStdErrPipe
  | ErrFfProbeCommand
  | ErrFfProbeDuration

text \<open>
  A \<open>time.Duration\<close> is a number of nanoseconds in 64 bits. A \<open>time.Time\<close> is modelled
  as the number of nanoseconds since the zero \<open>time.Time\<close>.
\<close>

type_synonym Duration = int
type_synonym Time = int

definition Second :: Duration where
  "Second = 1000000000"

definition Minute :: Duration where
  "Minute = 60 * Second"

definition Hour :: Duration where
  "Hour = 60 * Minute"

record Progress =
  InputFile :: string
  OutputFile :: string
  Frame :: int
  FPS :: float64
  Q :: float64
  Size :: float64
  Time :: Duration
  Bitrate :: float64
  Dup :: int
  Drop :: int
  Speed :: float64
  PercentComplete :: float64
  TimeRemaining :: Duration
  EstimatedFinishTime :: Time

definition FrameIndex :: nat where "FrameIndex = 1"
definition FPSIndex :: nat where "FPSIndex = 3"
definition QIndex :: nat where "QIndex = 5"
definition SizeIndex :: nat where "SizeIndex = 7"
definition TimeIndex :: nat where "TimeIndex = 9"
definition BitrateIndex :: nat where "BitrateIndex = 11"
definition DupIndex :: nat where "DupIndex = 13"
definition DropIndex :: nat where "DropIndex = 15"
definition SpeedIndex :: nat where "SpeedIndex = 17"

text \<open>The closure \<open>fieldsFunc\<close>: true on the runes that separate fields.\<close>

definition fieldsFunc :: "unicode_tables \<Rightarrow> rune \<Rightarrow> bool" where
  "fieldsFunc U c =
     (\<not> IsLetter U c \<and> \<not> IsNumber U c \<and> c \<noteq> 46 \<and> c \<noteq> 45 \<and> c \<noteq> 58 \<and> c \<noteq> 47)"

text \<open>
  \<open>time.Since(startTime)\<close> reads the clock: \<open>now\<close> is that reading. The difference is
  kept within the range of a \<open>Duration\<close>.
\<close>

definition Since :: "Time \<Rightarrow> Time \<Rightarrow> Duration" where
  "Since now t = max MinInt64 (min MaxInt64 (now - t))"

text \<open>
  \<open>newProgress\<close> of progress.go. The Unicode tables \<open>U\<close> and the clock reading \<open>now\<close>
  come first, then the arguments of the source in their order. \<open>Inl\<close> is the error
  returned with a nil record.
\<close>

definition newProgress ::
  "unicode_tables \<Rightarrow> Time \<Rightarrow> string \<Rightarrow> Duration \<Rightarrow> Time \<Rightarrow> string \<Rightarrow> string \<Rightarrow> error + Progress" where
  "newProgress U now line duration startTime inputFile outputFile =
     (if \<not> HasPrefix line ''frame='' then Inl ErrNoProgressInformation
      else let fields = FieldsFunc line (fieldsFunc U) in
      if length fields \<noteq> 18 then Inl ErrWrongNumberOfFields
      else (case Atoi (fields ! FrameIndex) of None \<Rightarrow> Inl ErrFrameNumber | Some frame \<Rightarrow>
      (case ParseFloat (fields ! FPSIndex) of None \<Rightarrow> Inl ErrFPS | Some fps \<Rightarrow>
      (case ParseFloat (fields ! QIndex) of None \<Rightarrow> Inl ErrQ | Some q \<Rightarrow>
      (case ParseFloat (TrimRight (fields ! SizeIndex) ''KiB'') of None \<Rightarrow> Inl ErrSize | Some size' \<Rightarrow>
      let splitTime = Split (fields ! TimeIndex) CHR '':'' in
      if length splitTime \<noteq> 3 then Inl ErrTime
      else (case Atoi (splitTime ! 0) of None \<Rightarrow> Inl ErrTime | Some hours \<Rightarrow>
      (case Atoi (splitTime ! 1) of None \<Rightarrow> Inl ErrTime | Some minutes \<Rightarrow>
      (case ParseFloat (splitTime ! 2) of None \<Rightarrow> Inl ErrTime | Some seconds \<Rightarrow>
      let timeThroughFile =
            wrap64 (wrap64 (wrap64 (hours * Hour) + wrap64 (minutes * Minute))
                    + wrap64 (int64_of_float seconds * Second)) in
      (case ParseFloat (TrimRight (fields ! BitrateIndex) ''kbit/s'') of None \<Rightarrow> Inl ErrBitrate | Some bitrate \<Rightarrow>
      (case Atoi (fields ! DupIndex) of None \<Rightarrow> Inl ErrDup | Some dup \<Rightarrow>
      (case Atoi (fields ! DropIndex) of None \<Rightarrow> Inl ErrDrop | Some drop' \<Rightarrow>
      (case ParseFloat (TrimRight (fields ! SpeedIndex) ''x'') of None \<Rightarrow> Inl ErrSpeed | Some speed \<Rightarrow>
      let percentComplete =
            fmul (fdiv (float64_of_int timeThroughFile) (float64_of_int duration)) (Fin 100);
          timeTaken = Since now startTime;
          timeRemaining =
            int64_of_float (fmul (fdiv (float64_of_int timeTaken) percentComplete)
                                 (fsub (Fin 100) percentComplete));
          predictedFinishTime = startTime + wrap64 (timeTaken + timeRemaining)
      in Inr \<lparr>InputFile = inputFile, OutputFile = outputFile, Frame = frame, FPS = fps,
              Q = q, Size = size', Time = timeThroughFile, Bitrate = bitrate, Dup = dup,
              Drop = drop', Speed = speed, PercentComplete = percentComplete,
              TimeRemaining = timeRemaining, EstimatedFinishTime = predictedFinishTime\<rparr>
      ))))))))))))"

text \<open>
  The fields of a record that the clock does not reach: everything but the time
  remaining and the estimated finish time.
\<close>

definition clock_free :: "Progress \<Rightarrow> Progress" where
  "clock_free p = p\<lparr>TimeRemaining := 0, EstimatedFinishTime := 0\<rparr>"

section \<open>The name-scanning revision of the parser (unnamed part 000)\<close>

text \<open>
  \<open>unicode.IsSpace\<close> and \<open>strings.TrimSpace\<close>: the white space runes at both ends go.
  The runes are read from the front, which is what Go does on valid UTF-8.
\<close>

definition IsSpace :: "rune \<Rightarrow> bool" where
  "IsSpace r =
     (r \<in> {9, 10, 11, 12, 13, 32, 133, 160, 5760, 8232, 8233, 8239, 8287, 12288}
      \<or> (8192 \<le> r \<and> r \<le> 8202))"

definition TrimSpace :: "string \<Rightarrow> string" where
  "TrimSpace s =
     concat (map snd (rev (dropWhile (\<lambda>x. IsSpace (fst x))
                            (rev (dropWhile (\<lambda>x. IsSpace (fst x)) (runes s))))))"

text \<open>
  The index variables of this revision. Each starts at zero; the loop over the fields
  sets it to the position after the field's name, the last occurrence winning.
\<close>

record indices =
  frameIndex :: nat
  fpsIndex :: nat
  qIndex :: nat
  sizeIndex :: nat
  timeIndex :: nat
  bitrateIndex :: nat
  speedIndex :: nat

fun scan_fields :: "string list \<Rightarrow> nat \<Rightarrow> indices \<Rightarrow> indices" where
  "scan_fields [] i ix = ix"
| "scan_fields (field # rest) i ix =
     (let t = TrimSpace field in
      scan_fields rest (i + 1)
        (if t = ''frame'' then ix\<lparr>frameIndex := i + 1\<rparr>
         else if t = ''fps'' then ix\<lparr>fpsIndex := i + 1\<rparr>
         else if t = ''q'' then ix\<lparr>qIndex := i + 1\<rparr>
         else if t = ''size'' then ix\<lparr>sizeIndex := i + 1\<rparr>
         else if t = ''time'' then ix\<lparr>timeIndex := i + 1\<rparr>
         else if t = ''bitrate'' then ix\<lparr>bitrateIndex := i + 1\<rparr>
         else if t = ''speed'' then ix\<lparr>speedIndex := i + 1\<rparr>
         else ix))"

text \<open>
  \<open>newProgress\<close> of this revision. Its \<open>Progress\<close> struct has no \<open>Dup\<close> and no \<open>Drop\<close>;
  the model uses the one record type and leaves the two at zero. The constant \<open>0.01\<close>
  is the \<open>float64\<close> nearest to one hundredth.
\<close>

definition newProgress_scan ::
  "unicode_tables \<Rightarrow> Time \<Rightarrow> string \<Rightarrow> Duration \<Rightarrow> Time \<Rightarrow> string \<Rightarrow> string \<Rightarrow> error + Progress" where
  "newProgress_scan U now line duration startTime inputFile outputFile =
     (if \<not> HasPrefix line ''frame='' then Inl ErrNoProgressInformation
      else let fields0 = FieldsFunc line (fieldsFunc U);
               ix = scan_fields fields0 0
                      \<lparr>frameIndex = 0, fpsIndex = 0, qIndex = 0, sizeIndex = 0,
                       timeIndex = 0, bitrateIndex = 0, speedIndex = 0\<rparr>;
               fields = map TrimSpace fields0 in
      if \<not> (frameIndex ix \<noteq> 0 \<and> frameIndex ix < length fields) then Inl ErrFrameNumber
      else (case Atoi (fields ! frameIndex ix) of None \<Rightarrow> Inl ErrFrameNumber | Some frame \<Rightarrow>
      if \<not> (fpsIndex ix \<noteq> 0 \<and> fpsIndex ix < length fields) then Inl ErrFPS
      else (case ParseFloat (fields ! fpsIndex ix) of None \<Rightarrow> Inl ErrFPS | Some fps \<Rightarrow>
      if \<not> (qIndex ix \<noteq> 0 \<and> qIndex ix < length fields) then Inl ErrQ
      else (case ParseFloat (fields ! qIndex ix) of None \<Rightarrow> Inl ErrQ | Some q \<Rightarrow>
      if \<not> (sizeIndex ix \<noteq> 0 \<and> sizeIndex ix < length fields) then Inl ErrSize
      else (case ParseFloat (TrimRight (fields ! sizeIndex ix) ''KiB'') of None \<Rightarrow> Inl ErrSize | Some size' \<Rightarrow>
      if \<not> (timeIndex ix \<noteq> 0 \<and> timeIndex ix < length fields) then Inl ErrTime
      else (case (if fields ! timeIndex ix = ''N/A'' then Inr 0
                  else let splitTime = Split (fields ! timeIndex ix) CHR '':'' in
                       if length splitTime \<noteq> 3 then Inl ErrTime
                       else (case Atoi (splitTime ! 0) of None \<Rightarrow> Inl ErrTime | Some hours \<Rightarrow>
                            (case Atoi (splitTime ! 1) of None \<Rightarrow> Inl ErrTime | Some minutes \<Rightarrow>
                            (case ParseFloat (splitTime ! 2) of None \<Rightarrow> Inl ErrTime | Some seconds \<Rightarrow>
                               Inr (wrap64 (wrap64 (wrap64 (hours * Hour) + wrap64 (minutes * Minute))
                                            + wrap64 (int64_of_float seconds * Second)))))))
            of Inl e \<Rightarrow> Inl e | Inr timeThroughFile \<Rightarrow>
      if \<not> (bitrateIndex ix \<noteq> 0 \<and> bitrateIndex ix < length fields) then Inl ErrBitrate
      else (case (if fields ! bitrateIndex ix = ''N/A'' then Some (Fin 0)
                  else ParseFloat (TrimRight (fields ! bitrateIndex ix) ''kbit/s''))
            of None \<Rightarrow> Inl ErrBitrate | Some bitrate \<Rightarrow>
      if \<not> (speedIndex ix \<noteq> 0 \<and> speedIndex ix < length fields) then Inl ErrSpeed
      else (case (if fields ! speedIndex ix = ''N/A'' then Some (Fin 0)
                  else ParseFloat (TrimRight (fields ! speedIndex ix) ''x''))
            of None \<Rightarrow> Inl ErrSpeed | Some speed \<Rightarrow>
      let percentComplete0 =
            fmul (fdiv (float64_of_int timeThroughFile) (float64_of_int duration)) (Fin 100);
          timeTaken = Since now startTime;
          percentComplete =
            (if feq0 percentComplete0 then round64 (1 / 100) else percentComplete0);
          timeRemaining =
            int64_of_float (fmul (fdiv (float64_of_int timeTaken) percentComplete)
                                 (fsub (Fin 100) percentComplete));
          predictedFinishTime = startTime + wrap64 (timeTaken + timeRemaining)
      in Inr \<lparr>InputFile = inputFile, OutputFile = outputFile, Frame = frame, FPS = fps,
              Q = q, Size = size', Time = timeThroughFile, Bitrate = bitrate, Dup = 0,
              Drop = 0, Speed = speed, PercentComplete = percentComplete,
              TimeRemaining = timeRemaining, EstimatedFinishTime = predictedFinishTime\<rparr>
      ))))))))"

section \<open>The orchestrator (ffmpeg.go): channels, \<open>cleanUp\<close> and the reader task\<close>

text \<open>
  The three channels are unbuffered. A channel is modelled by what its consumer has
  received so far and by whether it has been closed. Sending on a closed channel and
  closing a closed channel panic.
\<close>

record 'a chan =
  delivered :: "'a list"
  is_closed :: bool

datatype panic = SendOnClosedChannel | CloseOfClosedChannel

text \<open>
  The non-blocking send \<open>select { case c <- v: ... default: ... }\<close>. \<open>ready\<close> says that
  a consumer is receiving from \<open>c\<close> at that moment; otherwise the default case runs and
  the value is dropped. The flag of the result says that the value was sent.
\<close>

definition try_send :: "bool \<Rightarrow> 'a \<Rightarrow> 'a chan \<Rightarrow> panic + bool \<times> 'a chan" where
  "try_send ready v c =
     (if is_closed c then Inl SendOnClosedChannel
      else if ready then Inr (True, c\<lparr>delivered := delivered c @ [v]\<rparr>)
      else Inr (False, c))"

definition close_chan :: "'a chan \<Rightarrow> panic + 'a chan" where
  "close_chan c = (if is_closed c then Inl CloseOfClosedChannel else Inr (c\<lparr>is_closed := True\<rparr>))"

text \<open>
  The \<open>Ffmpeg\<close> struct, together with the two things of the outside world that its
  methods change: the subprocess (\<open>command_killed\<close>: \<open>command.Cancel()\<close> was called) and
  the file system (\<open>files\<close>: the paths that exist).
\<close>

record Ffmpeg =
  inputFile :: string
  outputFile :: string
  command_killed :: bool
  duration :: Duration
  startTime :: Time
  ProgressChan :: "Progress chan"
  ErrorChan :: "error chan"
  DoneChan :: "bool chan"
  files :: "string set"

text \<open>The value \<open>Progress{}\<close>: every field is zero.\<close>

definition zeroProgress :: Progress where
  "zeroProgress =
     \<lparr>InputFile = [], OutputFile = [], Frame = 0, FPS = Fin 0, Q = Fin 0, Size = Fin 0,
      Time = 0, Bitrate = Fin 0, Dup = 0, Drop = 0, Speed = Fin 0, PercentComplete = Fin 0,
      TimeRemaining = 0, EstimatedFinishTime = 0\<rparr>"

text \<open>
  What \<open>cleanUp\<close> observes of its environment: whether the context has been cancelled
  (\<open>ctx_done\<close>), and whether a consumer is receiving from the completion channel and
  from the progress channel when \<open>cleanUp\<close> offers a value there.
\<close>

record cleanup_env =
  ctx_done :: bool
  done_ready :: bool
  progress_ready :: bool

text \<open>
  The first \<open>select\<close> of \<open>cleanUp\<close>: the deletion of the output file and the offer of
  the completion value. \<open>os.Remove\<close> is modelled as removing the path; its error is
  ignored by the source.
\<close>

definition cleanUp_signal :: "cleanup_env \<Rightarrow> Ffmpeg \<Rightarrow> panic + Ffmpeg" where
  "cleanUp_signal e f =
     (if ctx_done e then
        (let f1 = f\<lparr>files := files f - {outputFile f}\<rparr> in
         case try_send (done_ready e) False (DoneChan f1) of
           Inl p \<Rightarrow> Inl p
         | Inr (sent, d) \<Rightarrow> Inr (f1\<lparr>DoneChan := d\<rparr>))
      else
        (case try_send (done_ready e) True (DoneChan f) of
           Inl p \<Rightarrow> Inl p
         | Inr (sent, d) \<Rightarrow>
             if sent then
               (case try_send (progress_ready e) zeroProgress (ProgressChan f) of
                  Inl p \<Rightarrow> Inl p
                | Inr (sent', pc) \<Rightarrow> Inr (f\<lparr>DoneChan := d, ProgressChan := pc\<rparr>))
             else Inr (f\<lparr>DoneChan := d\<rparr>)))"

text \<open>The three \<open>close\<close> calls that end \<open>cleanUp\<close>, in the order of the source.\<close>

definition cleanUp_close :: "Ffmpeg \<Rightarrow> panic + Ffmpeg" where
  "cleanUp_close f =
     (case close_chan (ProgressChan f) of
        Inl p \<Rightarrow> Inl p
      | Inr pc \<Rightarrow>
          (case close_chan (ErrorChan f) of
             Inl p \<Rightarrow> Inl p
           | Inr ec \<Rightarrow>
               (case close_chan (DoneChan f) of
                  Inl p \<Rightarrow> Inl p
                | Inr dc \<Rightarrow> Inr (f\<lparr>ProgressChan := pc, ErrorChan := ec, DoneChan := dc\<rparr>))))"

definition cleanUp :: "cleanup_env \<Rightarrow> Ffmpeg \<Rightarrow> panic + Ffmpeg" where
  "cleanUp e f = (case cleanUp_signal e f of Inl p \<Rightarrow> Inl p | Inr f1 \<Rightarrow> cleanUp_close f1)"

text \<open>
  When the cancellation token was triggered, relative to the normal completion of the
  subprocess, and what \<open>cleanUp\<close> observes of it: \<open><-f.context.Done()\<close> is ready once
  the token has been triggered, whenever that was.
\<close>

datatype cancellation = NotTriggered | TriggeredBeforeCompletion | TriggeredAfterCompletion

definition observe :: "cancellation \<Rightarrow> bool \<Rightarrow> bool \<Rightarrow> cleanup_env" where
  "observe t dr pr = \<lparr>ctx_done = (t \<noteq> NotTriggered), done_ready = dr, progress_ready = pr\<rparr>"

text \<open>
  One successful \<open>ReadString('\r')\<close> of the reader task: the line read, the clock
  reading of that iteration, and whether a consumer is receiving from the channel the
  iteration sends to (the error channel or the progress channel).
\<close>

record read =
  line :: string
  clock :: Time
  listening :: bool

text \<open>
  The goroutine that \<open>Start\<close> launches. Its input is the sequence of successful reads;
  the read after the last one fails (the stream is closed, the process has exited).
  The task that called \<open>Start\<close> only waits for the subprocess and touches neither the
  channels nor \<open>cleanUp\<close>.
\<close>

fun Start_reader :: "unicode_tables \<Rightarrow> cleanup_env \<Rightarrow> read list \<Rightarrow> Ffmpeg \<Rightarrow> panic + Ffmpeg" where
  "Start_reader U ce [] f = cleanUp ce f"
| "Start_reader U ce (r # rs) f =
     (case newProgress U (clock r) (line r) (duration f) (startTime f) (inputFile f) (outputFile f) of
        Inl err \<Rightarrow>
          if err \<noteq> ErrNoProgressInformation then
            (case try_send (listening r) err (ErrorChan f) of
               Inl p \<Rightarrow> Inl p
             | Inr (sent, ec) \<Rightarrow> cleanUp ce (f\<lparr>ErrorChan := ec, command_killed := True\<rparr>))
          else Start_reader U ce rs f
      | Inr progress \<Rightarrow>
          (case try_send (listening r) progress (ProgressChan f) of
             Inl p \<Rightarrow> Inl p
           | Inr (sent, pc) \<Rightarrow> Start_reader U ce rs (f\<lparr>ProgressChan := pc\<rparr>)))"

text \<open>A freshly made channel: \<open>make(chan T)\<close>.\<close>

definition make_chan :: "'a chan" where
  "make_chan = \<lparr>delivered = [], is_closed = False\<rparr>"

text \<open>The three channels of the orchestrator are all open, or all closed.\<close>

definition all_open :: "Ffmpeg \<Rightarrow> bool" where
  "all_open f =
     (\<not> is_closed (ProgressChan f) \<and> \<not> is_closed (ErrorChan f) \<and> \<not> is_closed (DoneChan f))"

definition all_closed :: "Ffmpeg \<Rightarrow> bool" where
  "all_closed f =
     (is_closed (ProgressChan f) \<and> is_closed (ErrorChan f) \<and> is_closed (DoneChan f))"

text \<open>
  The struct as \<open>NewFfmpeg\<close> builds it, for the duration that the probe reported, the
  clock reading taken for \<open>startTime\<close> and the state of the file system.
\<close>

definition newFfmpegStruct :: "string \<Rightarrow> string \<Rightarrow> Duration \<Rightarrow> Time \<Rightarrow> string set \<Rightarrow> Ffmpeg" where
  "newFfmpegStruct inp out d now fs =
     \<lparr>inputFile = inp, outputFile = out, command_killed = False, duration = d,
      startTime = now, ProgressChan = make_chan, ErrorChan = make_chan,
      DoneChan = make_chan, files = fs\<rparr>"

section \<open>Facts about the model\<close>

subsection \<open>Channels and \<open>cleanUp\<close>\<close>

lemma cleanUp_open:
  assumes "all_open f"
  shows "cleanUp e f =
    Inr (f\<lparr>files := (if ctx_done e then files f - {outputFile f} else files f),
           DoneChan :=
             \<lparr>delivered = delivered (DoneChan f) @ (if done_ready e then [\<not> ctx_done e] else []),
              is_closed = True\<rparr>,
           ProgressChan :=
             \<lparr>delivered = delivered (ProgressChan f)
                @ (if \<not> ctx_done e \<and> done_ready e \<and> progress_ready e then [zeroProgress] else []),
              is_closed = True\<rparr>,
           ErrorChan := \<lparr>delivered = delivered (ErrorChan f), is_closed = True\<rparr>\<rparr>)"
  using assms
  by (simp add: cleanUp_def cleanUp_signal_def cleanUp_close_def all_open_def try_send_def
      close_chan_def Let_def)

lemma cleanUp_closed: "is_closed (DoneChan f) \<Longrightarrow> cleanUp e f = Inl SendOnClosedChannel"
  by (simp add: cleanUp_def cleanUp_signal_def try_send_def Let_def)

lemma cleanUp_open_result:
  assumes "all_open f"
  shows "\<exists>f'. cleanUp e f = Inr f' \<and> all_closed f'
           \<and> delivered (DoneChan f')
               = delivered (DoneChan f) @ (if done_ready e then [\<not> ctx_done e] else [])
           \<and> files f' = (if ctx_done e then files f - {outputFile f} else files f)
           \<and> (\<forall>e'. cleanUp e' f' = Inl SendOnClosedChannel)"
  by (simp add: cleanUp_open [OF assms] all_closed_def cleanUp_closed)

lemma all_open_new: "all_open (newFfmpegStruct inp out d now fs)"
  by (simp add: all_open_def newFfmpegStruct_def make_chan_def)

subsection \<open>The parser\<close>

text \<open>
  C7. A line that does not begin with \<open>frame=\<close> makes \<open>newProgress\<close> return
  \<open>ErrNoProgressInformation\<close>, whatever its other arguments are: no other error and no
  record. The reader task that meets such a line goes on with the next read, in the
  state it was in: nothing is sent, nothing is closed, the subprocess is left alone.
\<close>

theorem not_a_progress_line_is_skipped:
  assumes "\<not> HasPrefix (line r) ''frame=''"
  shows "newProgress U (clock r) (line r) d st inp out = Inl ErrNoProgressInformation
       \<and> Start_reader U ce (r # rs) f = Start_reader U ce rs f"
  using assms by (simp add: newProgress_def)

theorem not_a_progress_line_is_skipped_witness:
  "\<not> HasPrefix (line \<lparr>line = ''Press [q] to stop, [?] for help'', clock = 5, listening = True\<rparr>) ''frame=''
   \<and> newProgress ascii_tables
        (clock \<lparr>line = ''Press [q] to stop, [?] for help'', clock = 5, listening = True\<rparr>)
        (line \<lparr>line = ''Press [q] to stop, [?] for help'', clock = 5, listening = True\<rparr>)
        100000000000 0 ''in.mkv'' ''out.mp4'' = Inl ErrNoProgressInformation
   \<and> Start_reader ascii_tables \<lparr>ctx_done = False, done_ready = True, progress_ready = False\<rparr>
        [\<lparr>line = ''Press [q] to stop, [?] for help'', clock = 5, listening = True\<rparr>]
        (newFfmpegStruct ''in.mkv'' ''out.mp4'' 100000000000 0 {''in.mkv''})
     = Start_reader ascii_tables \<lparr>ctx_done = False, done_ready = True, progress_ready = False\<rparr>
        [] (newFfmpegStruct ''in.mkv'' ''out.mp4'' 100000000000 0 {''in.mkv''})"
proof -
  have h: "\<not> HasPrefix (line \<lparr>line = ''Press [q] to stop, [?] for help'', clock = 5, listening = True\<rparr>) ''frame=''"
    by (simp add: HasPrefix_def)
  show ?thesis
    using h not_a_progress_line_is_skipped [OF h] by blast
qed

text \<open>
  C8. In the fixed-position layout, a line that begins with \<open>frame=\<close> and whose fields
  (the runs of letters, numbers, \<open>.\<close>, \<open>-\<close>, \<open>:\<close> and \<open>/\<close>) are not exactly 18 makes
  \<open>newProgress\<close> return \<open>ErrWrongNumberOfFields\<close>. The witness is a line without the
  \<open>dup\<close> and \<open>drop\<close> fields: it has 14 fields.
\<close>

theorem wrong_number_of_fields:
  assumes "HasPrefix l ''frame=''"
    and "length (FieldsFunc l (fieldsFunc U)) \<noteq> 18"
  shows "newProgress U now l d st inp out = Inl ErrWrongNumberOfFields"
  using assms by (simp add: newProgress_def)

theorem wrong_number_of_fields_witness:
  "HasPrefix ''frame=  100 fps= 25 q=28.0 size=    2048KiB time=00:00:10.00 bitrate= 512.0kbit/s speed=1.02x'' ''frame=''
   \<and> length (FieldsFunc ''frame=  100 fps= 25 q=28.0 size=    2048KiB time=00:00:10.00 bitrate= 512.0kbit/s speed=1.02x''
               (fieldsFunc ascii_tables)) = 14
   \<and> newProgress ascii_tables 20000000000
        ''frame=  100 fps= 25 q=28.0 size=    2048KiB time=00:00:10.00 bitrate= 512.0kbit/s speed=1.02x''
        100000000000 0 ''in.mkv'' ''out.mp4'' = Inl ErrWrongNumberOfFields"
proof -
  have h1: "HasPrefix ''frame=  100 fps= 25 q=28.0 size=    2048KiB time=00:00:10.00 bitrate= 512.0kbit/s speed=1.02x'' ''frame=''"
    by (simp add: HasPrefix_def)
  have h2: "length (FieldsFunc ''frame=  100 fps= 25 q=28.0 size=    2048KiB time=00:00:10.00 bitrate= 512.0kbit/s speed=1.02x''
               (fieldsFunc ascii_tables)) = 14"
    by code_simp
  from h2 have h3: "length (FieldsFunc ''frame=  100 fps= 25 q=28.0 size=    2048KiB time=00:00:10.00 bitrate= 512.0kbit/s speed=1.02x''
               (fieldsFunc ascii_tables)) \<noteq> 18"
    by simp
  show ?thesis
    using h1 h2 wrong_number_of_fields [OF h1 h3] by blast
qed


text \<open>
  C2. The claim is that a time field \<open>01:02:03.50\<close> gives an elapsed media time of
  1 hour, 2 minutes and 3.5 seconds. The source computes
  \<open>time.Duration(seconds)*time.Second\<close>: the conversion to the integer type comes before
  the multiplication and discards the fraction. On this line the elapsed media time is
  1 hour, 2 minutes and 3 seconds; the half second is lost.
\<close>

theorem time_field_loses_fraction:
  "map_sum id Time
     (newProgress ascii_tables 20000000000
        ''frame=  100 fps= 25 q=28.0 size=    2048KiB time=01:02:03.50 bitrate= 512.0kbit/s dup=0 drop=0 speed=1.02x''
        100000000000 0 ''in.mkv'' ''out.mp4'')
   = Inr (1 * Hour + 2 * Minute + 3 * Second)
   \<and> 1 * Hour + 2 * Minute + 3 * Second \<noteq> 1 * Hour + 2 * Minute + 3 * Second + Second div 2"
  by code_simp

text \<open>
  C6. The claim is that a bitrate or speed field \<open>N/A\<close> parses to zero. In progress.go
  the token goes to \<open>strconv.ParseFloat\<close> like any other and fails: the line with
  \<open>bitrate=N/A\<close> gives \<open>ErrBitrate\<close>, the line with \<open>speed=N/A\<close> gives \<open>ErrSpeed\<close>.
\<close>

theorem not_available_token_fails:
  "newProgress ascii_tables 20000000000
     ''frame=  100 fps= 25 q=28.0 size=    2048KiB time=00:00:10.00 bitrate=N/A dup=0 drop=0 speed=1.02x''
     100000000000 0 ''in.mkv'' ''out.mp4'' = Inl ErrBitrate
   \<and> newProgress ascii_tables 20000000000
     ''frame=  100 fps= 25 q=28.0 size=    2048KiB time=00:00:10.00 bitrate= 512.0kbit/s dup=0 drop=0 speed=N/A''
     100000000000 0 ''in.mkv'' ''out.mp4'' = Inl ErrSpeed"
  by code_simp

text \<open>
  C1. The claim is that the percent complete is never zero when it divides the time
  taken. progress.go has no clamp: on a line whose time field is \<open>00:00:00.00\<close> the
  percent complete is zero, and it is this value that \<open>timeRemaining\<close> divides by.
\<close>

theorem percent_complete_zero_divisor:
  "map_sum id (\<lambda>p. (Time p, PercentComplete p, feq0 (PercentComplete p)))
     (newProgress ascii_tables 20000000000
        ''frame=    1 fps=0.0 q=28.0 size=       0KiB time=00:00:00.00 bitrate= 512.0kbit/s dup=0 drop=0 speed=1.02x''
        100000000000 0 ''in.mkv'' ''out.mp4'')
   = Inr (0, Fin 0, True)"
  by code_simp

text \<open>
  C9. With the same line, total duration, start time and paths, the parser returns the
  same failure, or records that agree on every field but the time remaining and the
  estimated finish time: these two come from \<open>time.Since(startTime)\<close>, a reading of the
  clock, and equal clock readings give equal results.
\<close>

theorem newProgress_clock_independent:
  "map_sum id clock_free (newProgress U now1 l d st inp out)
   = map_sum id clock_free (newProgress U now2 l d st inp out)"
  by (simp add: newProgress_def clock_free_def Let_def split: option.splits)

text \<open>
  Two calls with the same arguments, 20 and 30 seconds after the start time: the time
  remaining is 180 seconds in the first and 270 seconds in the second.
\<close>

theorem newProgress_depends_on_clock:
  "newProgress ascii_tables 20000000000
     ''frame=  100 fps= 25 q=28.0 size=    2048KiB time=00:00:10.00 bitrate= 512.0kbit/s dup=0 drop=0 speed=1.02x''
     100000000000 0 ''in.mkv'' ''out.mp4''
   \<noteq> newProgress ascii_tables 30000000000
     ''frame=  100 fps= 25 q=28.0 size=    2048KiB time=00:00:10.00 bitrate= 512.0kbit/s dup=0 drop=0 speed=1.02x''
     100000000000 0 ''in.mkv'' ''out.mp4''"
  by code_simp

subsection \<open>The name-scanning revision\<close>

text \<open>
  The name-scanning revision clamps the percent complete: whenever it returns a record,
  the percent complete, which is the divisor of the time remaining, is not zero.
\<close>

lemma round64_hundredth: "round64 (1 / 100) = Fin (5764607523034235 / 576460752303423488)"
  by code_simp

lemma hundredth_not_zero: "\<not> feq0 (round64 (1 / 100))"
  by (simp add: round64_hundredth feq0_def fzero_def)

theorem newProgress_scan_divisor_not_zero:
  assumes "newProgress_scan U now l d st inp out = Inr p"
  shows "\<not> feq0 (PercentComplete p)"
  using assms
  by (auto simp add: newProgress_scan_def Let_def hundredth_not_zero
      split: option.splits if_splits sum.splits)

theorem newProgress_scan_divisor_not_zero_witness:
  "newProgress_scan ascii_tables 20000000000
     ''frame=    1 fps=0.0 q=28.0 size=       0KiB time=00:00:00.00 bitrate= 512.0kbit/s speed=1.02x''
     100000000000 0 ''in.mkv'' ''out.mp4''
   = Inr \<lparr>InputFile = ''in.mkv'', OutputFile = ''out.mp4'', Frame = 1, FPS = Fin 0,
          Q = Fin 28, Size = Fin 0, Time = 0, Bitrate = Fin 512, Dup = 0, Drop = 0,
          Speed = Fin (4593671619917906 / 4503599627370496),
          PercentComplete = Fin (5764607523034235 / 576460752303423488),
          TimeRemaining = 199980000000000, EstimatedFinishTime = 200000000000000\<rparr>
   \<and> \<not> feq0 (PercentComplete
        \<lparr>InputFile = ''in.mkv'', OutputFile = ''out.mp4'', Frame = 1, FPS = Fin 0,
          Q = Fin 28, Size = Fin 0, Time = 0, Bitrate = Fin 512, Dup = 0, Drop = 0,
          Speed = Fin (4593671619917906 / 4503599627370496),
          PercentComplete = Fin (5764607523034235 / 576460752303423488),
          TimeRemaining = 199980000000000, EstimatedFinishTime = 200000000000000\<rparr>)"
proof -
  have h: "newProgress_scan ascii_tables 20000000000
     ''frame=    1 fps=0.0 q=28.0 size=       0KiB time=00:00:00.00 bitrate= 512.0kbit/s speed=1.02x''
     100000000000 0 ''in.mkv'' ''out.mp4''
   = Inr \<lparr>InputFile = ''in.mkv'', OutputFile = ''out.mp4'', Frame = 1, FPS = Fin 0,
          Q = Fin 28, Size = Fin 0, Time = 0, Bitrate = Fin 512, Dup = 0, Drop = 0,
          Speed = Fin (4593671619917906 / 4503599627370496),
          PercentComplete = Fin (5764607523034235 / 576460752303423488),
          TimeRemaining = 199980000000000, EstimatedFinishTime = 200000000000000\<rparr>"
    by code_simp
  from h newProgress_scan_divisor_not_zero [OF h] show ?thesis
    by blast
qed

text \<open>
  The name-scanning revision maps the token \<open>N/A\<close> to zero, in the time, the bitrate
  and the speed field: the first line that the transcoding tool prints parses.
\<close>

theorem newProgress_scan_not_available:
  "map_sum id (\<lambda>p. (Time p, Bitrate p, Speed p))
     (newProgress_scan ascii_tables 20000000000
        ''frame=    0 fps=0.0 q=0.0 size=       0KiB time=N/A bitrate=N/A speed=N/A''
        100000000000 0 ''in.mkv'' ''out.mp4'')
   = Inr (0, Fin 0, Fin 0)"
  by code_simp

subsection \<open>The reader task and \<open>cleanUp\<close>\<close>

text \<open>
  C3. When \<open>newProgress\<close> fails with an error other than \<open>ErrNoProgressInformation\<close>,
  the reader task offers the error on the error channel with a non-blocking send (it
  reaches the consumer if one is receiving and is dropped otherwise), calls
  \<open>command.Cancel()\<close>, runs \<open>cleanUp\<close> and returns: the reads that would follow are
  never made, so the result does not depend on them.
\<close>

theorem parse_failure_is_fatal:
  assumes "newProgress U (clock r) (line r) (duration f) (startTime f) (inputFile f) (outputFile f)
           = Inl err"
    and "err \<noteq> ErrNoProgressInformation"
    and "\<not> is_closed (ErrorChan f)"
  shows "Start_reader U ce (r # rs) f =
         cleanUp ce
           (f\<lparr>ErrorChan := (ErrorChan f)\<lparr>delivered :=
                               delivered (ErrorChan f) @ (if listening r then [err] else [])\<rparr>,
              command_killed := True\<rparr>)"
  using assms by (simp add: try_send_def)

text \<open>
  The witness: a line whose frame field is \<open>abc\<close>, read while nobody listens on the
  error channel, followed by a well-formed line. The error is dropped, the subprocess is
  killed, the channels are closed, and the second line is never parsed: the progress
  channel has delivered nothing.
\<close>

theorem parse_failure_is_fatal_witness:
  "Start_reader ascii_tables \<lparr>ctx_done = False, done_ready = True, progress_ready = False\<rparr>
     [\<lparr>line = ''frame=  abc fps= 25 q=28.0 size=    2048KiB time=00:00:10.00 bitrate= 512.0kbit/s dup=0 drop=0 speed=1.02x'' @ [CHR 0x0D],
       clock = 20000000000, listening = False\<rparr>,
      \<lparr>line = ''frame=  100 fps= 25 q=28.0 size=    2048KiB time=00:00:10.00 bitrate= 512.0kbit/s dup=0 drop=0 speed=1.02x'' @ [CHR 0x0D],
       clock = 21000000000, listening = True\<rparr>]
     (newFfmpegStruct ''in.mkv'' ''out.mp4'' 100000000000 0 {''in.mkv'', ''out.mp4''})
   = Inr \<lparr>inputFile = ''in.mkv'', outputFile = ''out.mp4'', command_killed = True,
          duration = 100000000000, startTime = 0,
          ProgressChan = \<lparr>delivered = [], is_closed = True\<rparr>,
          ErrorChan = \<lparr>delivered = [], is_closed = True\<rparr>,
          DoneChan = \<lparr>delivered = [True], is_closed = True\<rparr>,
          files = {''in.mkv'', ''out.mp4''}\<rparr>"
proof -
  let ?r = "\<lparr>line = ''frame=  abc fps= 25 q=28.0 size=    2048KiB time=00:00:10.00 bitrate= 512.0kbit/s dup=0 drop=0 speed=1.02x'' @ [CHR 0x0D],
             clock = 20000000000, listening = False\<rparr>"
  let ?f = "newFfmpegStruct ''in.mkv'' ''out.mp4'' 100000000000 0 {''in.mkv'', ''out.mp4''}"
  have h1: "newProgress ascii_tables (clock ?r) (line ?r) (duration ?f) (startTime ?f)
              (inputFile ?f) (outputFile ?f) = Inl ErrFrameNumber"
    by code_simp
  have h2: "ErrFrameNumber \<noteq> ErrNoProgressInformation"
    by simp
  have h3: "\<not> is_closed (ErrorChan ?f)"
    by (simp add: newFfmpegStruct_def make_chan_def)
  show ?thesis
    unfolding parse_failure_is_fatal [OF h1 h2 h3]
    by (simp add: cleanUp_open all_open_def newFfmpegStruct_def make_chan_def)
qed

text \<open>
  C4. Started with its three channels open, \<open>cleanUp\<close> returns without a panic and
  leaves the three channels closed. If the cancellation token was triggered before
  normal completion, it has removed the output file, which does not exist afterwards,
  and has offered \<open>false\<close> on the completion channel. If the token has not been
  triggered when \<open>cleanUp\<close> runs, it has left the files alone and has offered \<open>true\<close>.
  The offer is a non-blocking send: the value reaches the consumer if one is receiving
  at that moment, and is dropped otherwise.
\<close>

theorem cleanUp_reports_and_closes:
  assumes "all_open f"
  shows "\<exists>f'. cleanUp (observe t dr pr) f = Inr f' \<and> all_closed f'
           \<and> (t = TriggeredBeforeCompletion \<longrightarrow>
                files f' = files f - {outputFile f} \<and> outputFile f \<notin> files f'
                \<and> delivered (DoneChan f') = delivered (DoneChan f) @ (if dr then [False] else []))
           \<and> (t = NotTriggered \<longrightarrow>
                files f' = files f
                \<and> delivered (DoneChan f') = delivered (DoneChan f) @ (if dr then [True] else []))"
  by (simp add: cleanUp_open [OF assms] all_closed_def observe_def)

theorem cleanUp_reports_and_closes_witness:
  "all_open (newFfmpegStruct ''in.mkv'' ''out.mp4'' 100000000000 0 {''in.mkv'', ''out.mp4''})
   \<and> map_sum id (\<lambda>f. (all_closed f, delivered (DoneChan f), files f))
       (cleanUp (observe TriggeredBeforeCompletion True True)
          (newFfmpegStruct ''in.mkv'' ''out.mp4'' 100000000000 0 {''in.mkv'', ''out.mp4''}))
     = Inr (True, [False], {''in.mkv''})
   \<and> map_sum id (\<lambda>f. (all_closed f, delivered (DoneChan f), files f))
       (cleanUp (observe NotTriggered True True)
          (newFfmpegStruct ''in.mkv'' ''out.mp4'' 100000000000 0 {''in.mkv'', ''out.mp4''}))
     = Inr (True, [True], {''in.mkv'', ''out.mp4''})"
proof -
  let ?f = "newFfmpegStruct ''in.mkv'' ''out.mp4'' 100000000000 0 {''in.mkv'', ''out.mp4''}"
  have h: "all_open ?f"
    by (rule all_open_new)
  from cleanUp_reports_and_closes [OF h, of TriggeredBeforeCompletion True True]
  obtain f' where r: "cleanUp (observe TriggeredBeforeCompletion True True) ?f = Inr f'"
    and c: "all_closed f'"
    and d: "delivered (DoneChan f') = delivered (DoneChan ?f) @ [False]"
    and fs: "files f' = files ?f - {outputFile ?f}"
    by auto
  from d have d': "delivered (DoneChan f') = [False]"
    by (simp add: newFfmpegStruct_def make_chan_def)
  from fs have fs': "files f' = {''in.mkv''}"
    by (auto simp add: newFfmpegStruct_def)
  from cleanUp_reports_and_closes [OF h, of NotTriggered True True]
  obtain g' where r2: "cleanUp (observe NotTriggered True True) ?f = Inr g'"
    and c2: "all_closed g'"
    and d2: "delivered (DoneChan g') = delivered (DoneChan ?f) @ [True]"
    and fs2: "files g' = files ?f"
    by auto
  from d2 have d2': "delivered (DoneChan g') = [True]"
    by (simp add: newFfmpegStruct_def make_chan_def)
  from fs2 have fs2': "files g' = {''in.mkv'', ''out.mp4''}"
    by (simp add: newFfmpegStruct_def)
  from r c d' fs' r2 c2 d2' fs2' h show ?thesis
    by simp
qed

text \<open>
  The claim as it is written promises the completion value on the completion channel,
  and the completed value whenever the token was not triggered before normal completion.
  With nobody receiving there when \<open>cleanUp\<close> runs, the consumer receives no value, on
  the cancelled path and on the normal one. And when the token is triggered after the
  normal completion but before \<open>cleanUp\<close> looks at it, the finished output is removed
  and \<open>false\<close> is what the consumer receives.
\<close>

theorem cleanUp_report_dropped_or_late_cancel:
  "map_sum id (\<lambda>f. delivered (DoneChan f))
     (cleanUp (observe TriggeredBeforeCompletion False False)
        (newFfmpegStruct ''in.mkv'' ''out.mp4'' 100000000000 0 {''in.mkv'', ''out.mp4''}))
   = Inr []
   \<and> map_sum id (\<lambda>f. delivered (DoneChan f))
     (cleanUp (observe NotTriggered False False)
        (newFfmpegStruct ''in.mkv'' ''out.mp4'' 100000000000 0 {''in.mkv'', ''out.mp4''}))
   = Inr []
   \<and> map_sum id (\<lambda>f. (delivered (DoneChan f), ''out.mp4'' \<in> files f))
     (cleanUp (observe TriggeredAfterCompletion True False)
        (newFfmpegStruct ''in.mkv'' ''out.mp4'' 100000000000 0 {''in.mkv'', ''out.mp4''}))
   = Inr ([False], False)"
  by (simp add: cleanUp_open all_open_new observe_def)
     (simp add: newFfmpegStruct_def make_chan_def)

text \<open>
  C5. \<open>cleanUp\<close> has no guard and is not idempotent. What holds is this: on every
  sequence of reads, the reader task started with the three channels open ends in one
  call of \<open>cleanUp\<close>. Until that call the reader has sent nothing on the completion
  channel, has removed no file and has closed no channel: the call is made with the
  completion channel and the files as they were at the start, and with the three
  channels open. It returns without a panic and leaves the channels closed, so in the
  whole run the completion channel delivers at most one value, the output file is
  removed by that call alone, and each channel is closed once. The task that waits
  for the subprocess never calls \<open>cleanUp\<close>. Any further call of \<open>cleanUp\<close> would
  panic on its send to the closed completion channel.
\<close>

theorem cleanUp_once_per_run:
  assumes "all_open f"
  shows "\<exists>f1 f'. all_open f1 \<and> DoneChan f1 = DoneChan f \<and> files f1 = files f
           \<and> outputFile f1 = outputFile f
           \<and> Start_reader U ce rs f = cleanUp ce f1
           \<and> cleanUp ce f1 = Inr f' \<and> all_closed f'
           \<and> delivered (DoneChan f')
               = delivered (DoneChan f) @ (if done_ready ce then [\<not> ctx_done ce] else [])
           \<and> files f' = (if ctx_done ce then files f - {outputFile f} else files f)
           \<and> (\<forall>e. cleanUp e f' = Inl SendOnClosedChannel)"
  using assms
proof (induction rs arbitrary: f)
  case Nil
  from cleanUp_open_result [OF Nil, of ce]
  obtain f' where "cleanUp ce f = Inr f'" and "all_closed f'"
    and "delivered (DoneChan f')
           = delivered (DoneChan f) @ (if done_ready ce then [\<not> ctx_done ce] else [])"
    and "files f' = (if ctx_done ce then files f - {outputFile f} else files f)"
    and "\<forall>e. cleanUp e f' = Inl SendOnClosedChannel"
    by blast
  with Nil show ?case
    by (intro exI [of _ f] exI [of _ f']) simp
next
  case (Cons r rs)
  show ?case
  proof (cases "newProgress U (clock r) (line r) (duration f) (startTime f) (inputFile f) (outputFile f)")
    case (Inl err)
    show ?thesis
    proof (cases "err = ErrNoProgressInformation")
      case True
      with Inl Cons show ?thesis by simp
    next
      case False
      define g where "g = f\<lparr>ErrorChan := (ErrorChan f)\<lparr>delivered :=
                     delivered (ErrorChan f) @ (if listening r then [err] else [])\<rparr>,
                   command_killed := True\<rparr>"
      from Cons.prems have op: "all_open g"
        by (simp add: all_open_def g_def)
      have same: "DoneChan g = DoneChan f" "files g = files f" "outputFile g = outputFile f"
        by (simp_all add: g_def)
      from Cons.prems have "\<not> is_closed (ErrorChan f)"
        by (simp add: all_open_def)
      with Inl False have run: "Start_reader U ce (r # rs) f = cleanUp ce g"
        by (simp add: try_send_def g_def)
      from cleanUp_open_result [OF op, of ce]
      obtain f' where "cleanUp ce g = Inr f'" and "all_closed f'"
        and "delivered (DoneChan f')
               = delivered (DoneChan f) @ (if done_ready ce then [\<not> ctx_done ce] else [])"
        and "files f' = (if ctx_done ce then files f - {outputFile f} else files f)"
        and "\<forall>e. cleanUp e f' = Inl SendOnClosedChannel"
        unfolding same by blast
      with op same run show ?thesis
        by blast
    qed
  next
    case (Inr progress)
    define g where "g = f\<lparr>ProgressChan := (ProgressChan f)\<lparr>delivered :=
                   delivered (ProgressChan f) @ (if listening r then [progress] else [])\<rparr>\<rparr>"
    from Cons.prems have op: "all_open g"
      by (simp add: all_open_def g_def)
    have same: "DoneChan g = DoneChan f" "files g = files f" "outputFile g = outputFile f"
      by (simp_all add: g_def)
    from Cons.prems have "\<not> is_closed (ProgressChan f)"
      by (simp add: all_open_def)
    with Inr have step: "Start_reader U ce (r # rs) f = Start_reader U ce rs g"
      by (simp add: try_send_def g_def)
    from Cons.IH [OF op] show ?thesis
      unfolding step same .
  qed
qed

theorem cleanUp_once_per_run_witness:
  "all_open (newFfmpegStruct ''in.mkv'' ''out.mp4'' 100000000000 0 {''in.mkv'', ''out.mp4''})
   \<and> map_sum id (\<lambda>f. (all_closed f, delivered (DoneChan f), files f))
       (Start_reader ascii_tables \<lparr>ctx_done = False, done_ready = True, progress_ready = True\<rparr>
          [\<lparr>line = ''Press [q] to stop, [?] for help'', clock = 5, listening = True\<rparr>]
          (newFfmpegStruct ''in.mkv'' ''out.mp4'' 100000000000 0 {''in.mkv'', ''out.mp4''}))
     = Inr (True, [True], {''in.mkv'', ''out.mp4''})"
proof -
  let ?ce = "\<lparr>ctx_done = False, done_ready = True, progress_ready = True\<rparr>"
  let ?rs = "[\<lparr>line = ''Press [q] to stop, [?] for help'', clock = 5, listening = True\<rparr>]"
  let ?f = "newFfmpegStruct ''in.mkv'' ''out.mp4'' 100000000000 0 {''in.mkv'', ''out.mp4''}"
  have h: "all_open ?f"
    by (rule all_open_new)
  from cleanUp_once_per_run [OF h, of ascii_tables ?ce ?rs]
  obtain f1 f' where r: "Start_reader ascii_tables ?ce ?rs ?f = cleanUp ?ce f1"
    and r': "cleanUp ?ce f1 = Inr f'"
    and c: "all_closed f'"
    and d: "delivered (DoneChan f') = delivered (DoneChan ?f) @ [True]"
    and fs: "files f' = files ?f"
    by auto
  from d have d': "delivered (DoneChan f') = [True]"
    by (simp add: newFfmpegStruct_def make_chan_def)
  from fs have fs': "files f' = {''in.mkv'', ''out.mp4''}"
    by (simp add: newFfmpegStruct_def)
  from r r' c d' fs' h show ?thesis
    by simp
qed

text \<open>
  \<open>cleanUp\<close> run a second time, on the state that its first run left: the result is a
  panic, not the state unchanged.
\<close>

theorem cleanUp_twice_panics:
  "map_sum id (cleanUp \<lparr>ctx_done = False, done_ready = True, progress_ready = True\<rparr>)
     (cleanUp \<lparr>ctx_done = False, done_ready = True, progress_ready = True\<rparr>
        (newFfmpegStruct ''in.mkv'' ''out.mp4'' 100000000000 0 {''in.mkv'', ''out.mp4''}))
   = Inr (Inl SendOnClosedChannel)"
  by (simp add: cleanUp_open all_open_new cleanUp_closed)

text \<open>
  C10. On the path where the context is not cancelled, \<open>cleanUp\<close> offers \<open>true\<close> on
  the completion channel with a non-blocking send, dropped when nobody is receiving.
  Only when that send went through does it offer \<open>Progress{}\<close>, the record whose
  fields are all zero, on the progress channel, again with a non-blocking send; then it
  closes the progress channel. So the consumer of the progress channel receives at most
  one such record, and receives it exactly when both sends found a receiver.
\<close>

theorem cleanUp_final_zero_progress:
  assumes "\<not> ctx_done e"
    and "all_open f"
  shows "\<exists>f'. cleanUp e f = Inr f'
           \<and> delivered (DoneChan f') = delivered (DoneChan f) @ (if done_ready e then [True] else [])
           \<and> delivered (ProgressChan f')
               = delivered (ProgressChan f)
                 @ (if done_ready e \<and> progress_ready e then [zeroProgress] else [])
           \<and> is_closed (ProgressChan f')"
  using assms(1)
  by (simp add: cleanUp_open [OF assms(2)])

theorem cleanUp_final_zero_progress_witness:
  "\<not> ctx_done \<lparr>ctx_done = False, done_ready = True, progress_ready = True\<rparr>
   \<and> all_open (newFfmpegStruct ''in.mkv'' ''out.mp4'' 100000000000 0 {''in.mkv'', ''out.mp4''})
   \<and> map_sum id (\<lambda>f. (delivered (DoneChan f), delivered (ProgressChan f), is_closed (ProgressChan f)))
       (cleanUp \<lparr>ctx_done = False, done_ready = True, progress_ready = True\<rparr>
          (newFfmpegStruct ''in.mkv'' ''out.mp4'' 100000000000 0 {''in.mkv'', ''out.mp4''}))
     = Inr ([True], [zeroProgress], True)"
proof -
  let ?e = "\<lparr>ctx_done = False, done_ready = True, progress_ready = True\<rparr>"
  let ?f = "newFfmpegStruct ''in.mkv'' ''out.mp4'' 100000000000 0 {''in.mkv'', ''out.mp4''}"
  have h1: "\<not> ctx_done ?e"
    by simp
  have h2: "all_open ?f"
    by (rule all_open_new)
  from cleanUp_final_zero_progress [OF h1 h2]
  obtain f' where "cleanUp ?e ?f = Inr f'"
    and "delivered (DoneChan f') = delivered (DoneChan ?f) @ [True]"
    and "delivered (ProgressChan f') = delivered (ProgressChan ?f) @ [zeroProgress]"
    and "is_closed (ProgressChan f')"
    by auto
  then have "map_sum id (\<lambda>f. (delivered (DoneChan f), delivered (ProgressChan f), is_closed (ProgressChan f)))
       (cleanUp ?e ?f) = Inr ([True], [zeroProgress], True)"
    by (simp add: newFfmpegStruct_def make_chan_def)
  with h1 h2 show ?thesis by blast
qed


end
